theory Spec2Isabelle
  imports Main
begin

section \<open>The POSIX environment of PosixAbstractThread.cpp\<close>

text \<open>
  Every method of \<^verbatim>\<open>PosixAbstractThread\<close> is a few lines around calls of the
  POSIX thread and signal interface. The calls are not code of the repository; they are
  modelled here after their POSIX description, as functions on an explicit record of the
  operating-system state seen by the calling thread. Each call appends itself, with its
  arguments and its return code, to the list \<open>calls\<close>, so that "no request was issued"
  and "in this order" are statements about that list. Where POSIX leaves the behaviour of a
  call undefined (a thread identifier that names no thread, the handle after a failed
  creation) the outcome is not fixed here: it is a parameter of the state, and the theorems
  hold for every value of it.
\<close>

type_synonym pthread_t = nat

text \<open>The address of a \<^verbatim>\<open>void (*)(int)\<close> function; \<open>0\<close> is \<^verbatim>\<open>SIG_DFL\<close>.\<close>
type_synonym sighandler_t = nat

type_synonym sigset_t = "int set"

datatype cancelstate = PTHREAD_CANCEL_ENABLE | PTHREAD_CANCEL_DISABLE

datatype canceltype = PTHREAD_CANCEL_DEFERRED | PTHREAD_CANCEL_ASYNCHRONOUS

text \<open>
  The address of a start routine, the third argument of \<^verbatim>\<open>pthread_create\<close>:
  \<^verbatim>\<open>PosixAbstractThread::Execute\<close>, or a routine of code outside this file.
\<close>
datatype start_routine = PosixAbstractThread_Execute | Other_routine

text \<open>
  What the operating system keeps for one thread that has been created and not yet
  joined: its cancelability state and type, whether a cancellation request is pending,
  whether it has been detached, whether its start routine has finished, the signals sent
  to it, and the start routine it was created with.
\<close>
record thread =
  t_cancelstate :: cancelstate
  t_canceltype :: canceltype
  cancel_pending :: bool
  detached :: bool
  exited :: bool
  received :: "int list"
  start_routine :: start_routine

record sigaction_t =
  sa_handler :: sighandler_t
  sa_mask :: sigset_t
  sa_flags :: int

datatype syscall =
    Pthread_create int
  | Pthread_cancel pthread_t int
  | Pthread_join pthread_t int
  | Pthread_kill pthread_t int int
  | Pthread_sigmask int sigset_t int
  | Sigprocmask int sigset_t int
  | Sigaction int sigaction_t int

text \<open>The messages the methods hand to the \<^verbatim>\<open>DEBUG\<close> macro of Logger.hpp.\<close>
datatype log_msg =
    Cant_mask_signal int
  | Cant_unmask_signal int
  | Cant_send_signal int
  | Cant_set_signal int

text \<open>
  The state of the system as the calling thread sees it. \<open>caller\<close> is \<open>Some h\<close>
  when the calling thread is the thread \<open>h\<close> of the table, and \<open>None\<close> when it is
  the initial thread of the process. The last four fields are what POSIX leaves undefined:
  the content of the handle after a failed \<^verbatim>\<open>pthread_create\<close> (from the content
  before), and the answer of \<^verbatim>\<open>pthread_cancel\<close>, \<^verbatim>\<open>pthread_kill\<close> and
  \<^verbatim>\<open>pthread_join\<close> for an identifier that names no thread of the table (an
  uninitialised handle, or the handle of a thread that has been joined); for the last two
  \<open>None\<close> is a call that does not return, the process being killed.
\<close>
record os =
  threads :: "(pthread_t \<times> thread) list"
  thread_limit :: nat
  caller :: "pthread_t option"
  sigmask :: sigset_t
  dispositions :: "int \<rightharpoonup> sigaction_t"
  calls :: "syscall list"
  logged :: "log_msg list"
  failed_create :: "pthread_t \<Rightarrow> pthread_t"
  cancel_unknown :: "pthread_t \<Rightarrow> int"
  kill_unknown :: "pthread_t \<Rightarrow> int option"
  join_unknown :: "pthread_t \<Rightarrow> int option"

subsection \<open>Constants of the system headers (Linux and glibc values)\<close>

definition ESRCH :: int where "ESRCH = 3"
definition EAGAIN :: int where "EAGAIN = 11"
definition EINVAL :: int where "EINVAL = 22"
definition EDEADLK :: int where "EDEADLK = 35"

definition SIGKILL :: int where "SIGKILL = 9"
definition SIGUSR1 :: int where "SIGUSR1 = 10"
definition SIGSTOP :: int where "SIGSTOP = 19"
definition NSIG :: int where "NSIG = 65"

definition SIG_BLOCK :: int where "SIG_BLOCK = 0"
definition SIG_UNBLOCK :: int where "SIG_UNBLOCK = 1"
definition SIG_SETMASK :: int where "SIG_SETMASK = 2"

text \<open>
  The two signals that the thread library keeps for itself (cancellation and
  \<^verbatim>\<open>setxid\<close>): its signal functions refuse them like a number that is no signal.
\<close>
definition reserved :: sigset_t where
  "reserved = {32, 33}"

definition valid_signal :: "int \<Rightarrow> bool" where
  "valid_signal sig = (1 \<le> sig \<and> sig < NSIG \<and> sig \<notin> reserved)"

text \<open>SIGKILL and SIGSTOP can be neither blocked nor caught.\<close>
definition unblockable :: sigset_t where
  "unblockable = {SIGKILL, SIGSTOP}"

subsection \<open>Signal sets\<close>

definition sigemptyset :: sigset_t where
  "sigemptyset = {}"

definition sigfillset :: sigset_t where
  "sigfillset = {sig. valid_signal sig}"

text \<open>\<^verbatim>\<open>sigaddset\<close> returns \<open>-1\<close> and leaves the set alone when the number is no signal.\<close>
definition sigaddset :: "sigset_t \<Rightarrow> int \<Rightarrow> int \<times> sigset_t" where
  "sigaddset m sig = (if valid_signal sig then (0, insert sig m) else (- 1, m))"

text \<open>
  The mask after a change request. A request to block SIGKILL or SIGSTOP is ignored
  without an error. \<open>None\<close> when \<open>how\<close> is none of the three constants.
\<close>
definition change_mask :: "int \<Rightarrow> sigset_t \<Rightarrow> sigset_t \<Rightarrow> sigset_t option" where
  "change_mask how req old =
     (if how = SIG_BLOCK then Some (old \<union> (req - unblockable))
      else if how = SIG_UNBLOCK then Some (old - req)
      else if how = SIG_SETMASK then Some (req - unblockable)
      else None)"

text \<open>\<^verbatim>\<open>pthread_sigmask(how, &set, NULL)\<close>: the return code and the new state.\<close>
definition pthread_sigmask :: "int \<Rightarrow> sigset_t \<Rightarrow> os \<Rightarrow> int \<times> os" where
  "pthread_sigmask how req w =
     (case change_mask how req (sigmask w) of
        Some m' \<Rightarrow> (0, w\<lparr>sigmask := m', calls := calls w @ [Pthread_sigmask how req 0]\<rparr>)
      | None \<Rightarrow> (EINVAL, w\<lparr>calls := calls w @ [Pthread_sigmask how req EINVAL]\<rparr>))"

text \<open>
  \<^verbatim>\<open>sigprocmask(how, &set, &oldset)\<close>: the return code, the value stored in
  \<^verbatim>\<open>oldset\<close> and the new state. On Linux the mask it reads and writes is the
  calling thread's, the one \<^verbatim>\<open>pthread_sigmask\<close> changes.
\<close>
definition sigprocmask :: "int \<Rightarrow> sigset_t \<Rightarrow> os \<Rightarrow> int \<times> sigset_t \<times> os" where
  "sigprocmask how req w =
     (case change_mask how req (sigmask w) of
        Some m' \<Rightarrow>
          (0, sigmask w, w\<lparr>sigmask := m', calls := calls w @ [Sigprocmask how req 0]\<rparr>)
      | None \<Rightarrow> (- 1, sigmask w, w\<lparr>calls := calls w @ [Sigprocmask how req (- 1)]\<rparr>))"

text \<open>\<^verbatim>\<open>bzero(&sa, sizeof(sa))\<close>: every field of the structure is zero.\<close>
definition bzero :: sigaction_t where
  "bzero = \<lparr>sa_handler = 0, sa_mask = {}, sa_flags = 0\<rparr>"

text \<open>
  \<^verbatim>\<open>sigaction(sig, &sa, NULL)\<close> fails with \<open>-1\<close> for a number that is no signal,
  for a reserved signal and for SIGKILL and SIGSTOP, and records the disposition otherwise.
\<close>
definition sigaction :: "int \<Rightarrow> sigaction_t \<Rightarrow> os \<Rightarrow> int \<times> os" where
  "sigaction sig sa w =
     (if valid_signal sig \<and> sig \<notin> unblockable
      then (0, w\<lparr>dispositions := (dispositions w)(sig \<mapsto> sa),
                 calls := calls w @ [Sigaction sig sa 0]\<rparr>)
      else (- 1, w\<lparr>calls := calls w @ [Sigaction sig sa (- 1)]\<rparr>))"

subsection \<open>Threads\<close>

text \<open>
  A thread created with default attributes is cancelable, with deferred cancelability type,
  and joinable; it will run the start routine it was created with.
\<close>
definition new_thread :: "start_routine \<Rightarrow> thread" where
  "new_thread routine =
     \<lparr>t_cancelstate = PTHREAD_CANCEL_ENABLE, t_canceltype = PTHREAD_CANCEL_DEFERRED,
      cancel_pending = False, detached = False, exited = False, received = [],
      start_routine = routine\<rparr>"

text \<open>An identifier that no thread of the table has; identifiers of joined threads are reused.\<close>
definition new_handle :: "pthread_t list \<Rightarrow> pthread_t" where
  "new_handle hs = Suc (foldr max hs 0)"

fun update_thread :: "pthread_t \<Rightarrow> (thread \<Rightarrow> thread) \<Rightarrow> (pthread_t \<times> thread) list
    \<Rightarrow> (pthread_t \<times> thread) list" where
  "update_thread h f [] = []"
| "update_thread h f ((k, t) # ts) =
     (if k = h then (k, f t) # ts else (k, t) # update_thread h f ts)"

definition remove_thread :: "pthread_t \<Rightarrow> (pthread_t \<times> thread) list \<Rightarrow> (pthread_t \<times> thread) list" where
  "remove_thread h ts = filter (\<lambda>(k, t). k \<noteq> h) ts"

text \<open>
  \<^verbatim>\<open>pthread_create(&handle, NULL, start_routine, arg)\<close>, from the content of
  \<^verbatim>\<open>handle\<close> and the start routine: the return code, the content of
  \<^verbatim>\<open>handle\<close> after the call and the new state. The new thread is entered in the
  table with its start routine. The call fails with EAGAIN when the system's limit of
  threads is reached; what the handle then holds is undefined. The argument
  \<^verbatim>\<open>arg\<close> is the object whose \<^verbatim>\<open>run()\<close> the routine calls; objects have no
  address here, and \<^verbatim>\<open>run()\<close> is given to the step that lets the thread execute.
\<close>
definition pthread_create :: "pthread_t \<Rightarrow> start_routine \<Rightarrow> os \<Rightarrow> int \<times> pthread_t \<times> os" where
  "pthread_create h routine w =
     (if length (threads w) < thread_limit w
      then let h' = new_handle (map fst (threads w))
           in (0, h', w\<lparr>threads := (h', new_thread routine) # threads w,
                        calls := calls w @ [Pthread_create 0]\<rparr>)
      else (EAGAIN, failed_create w h, w\<lparr>calls := calls w @ [Pthread_create EAGAIN]\<rparr>))"

text \<open>
  \<^verbatim>\<open>pthread_cancel\<close> marks the request on a thread of the table and returns 0. For an
  identifier that names no thread the return code is the one the state gives (that the
  call returns is taken for granted).
\<close>
definition pthread_cancel :: "pthread_t \<Rightarrow> os \<Rightarrow> int \<times> os" where
  "pthread_cancel h w =
     (case map_of (threads w) h of
        Some t \<Rightarrow>
          (0, w\<lparr>threads := update_thread h (\<lambda>t. t\<lparr>cancel_pending := True\<rparr>) (threads w),
                calls := calls w @ [Pthread_cancel h 0]\<rparr>)
      | None \<Rightarrow>
          (cancel_unknown w h, w\<lparr>calls := calls w @ [Pthread_cancel h (cancel_unknown w h)]\<rparr>))"

text \<open>
  \<^verbatim>\<open>pthread_join(handle, NULL)\<close>. A thread that waits for itself gets EDEADLK. For
  an identifier that names no thread the outcome is the one the state gives. A detached
  thread gives EINVAL. Otherwise the call returns 0 and releases the thread when the
  thread has exited; while the thread runs the caller is blocked: in a state where the
  thread has not exited the call does not return, which is the value \<open>None\<close>.
\<close>
definition pthread_join :: "pthread_t \<Rightarrow> os \<Rightarrow> (int \<times> os) option" where
  "pthread_join h w =
     (if caller w = Some h
      then Some (EDEADLK, w\<lparr>calls := calls w @ [Pthread_join h EDEADLK]\<rparr>)
      else
        case map_of (threads w) h of
          None \<Rightarrow>
            (case join_unknown w h of
               None \<Rightarrow> None
             | Some rc \<Rightarrow> Some (rc, w\<lparr>calls := calls w @ [Pthread_join h rc]\<rparr>))
        | Some t \<Rightarrow>
            if detached t
            then Some (EINVAL, w\<lparr>calls := calls w @ [Pthread_join h EINVAL]\<rparr>)
            else if exited t
            then Some (0, w\<lparr>threads := remove_thread h (threads w),
                            calls := calls w @ [Pthread_join h 0]\<rparr>)
            else None)"

text \<open>
  \<^verbatim>\<open>pthread_kill(handle, sig)\<close>. A reserved signal gives EINVAL before the handle is
  looked at. For an identifier that names no thread the outcome is the one the state
  gives; \<open>None\<close> is a call that does not return. For a thread that has exited and has
  not been joined the call returns 0 and sends nothing. Signal 0 only checks the handle;
  a number that is no signal gives EINVAL; any other signal is delivered.
\<close>
definition pthread_kill :: "pthread_t \<Rightarrow> int \<Rightarrow> os \<Rightarrow> (int \<times> os) option" where
  "pthread_kill h sig w =
     (if sig \<in> reserved
      then Some (EINVAL, w\<lparr>calls := calls w @ [Pthread_kill h sig EINVAL]\<rparr>)
      else
        case map_of (threads w) h of
          None \<Rightarrow>
            (case kill_unknown w h of
               None \<Rightarrow> None
             | Some rc \<Rightarrow> Some (rc, w\<lparr>calls := calls w @ [Pthread_kill h sig rc]\<rparr>))
        | Some t \<Rightarrow>
            if exited t \<or> sig = 0
            then Some (0, w\<lparr>calls := calls w @ [Pthread_kill h sig 0]\<rparr>)
            else if \<not> valid_signal sig
            then Some (EINVAL, w\<lparr>calls := calls w @ [Pthread_kill h sig EINVAL]\<rparr>)
            else Some (0, w\<lparr>threads := update_thread h
                              (\<lambda>t. t\<lparr>received := received t @ [sig]\<rparr>) (threads w),
                            calls := calls w @ [Pthread_kill h sig 0]\<rparr>))"

text \<open>\<^verbatim>\<open>pthread_setcancelstate(state, NULL)\<close> acts on the calling thread.\<close>
definition pthread_setcancelstate :: "cancelstate \<Rightarrow> thread \<Rightarrow> int \<times> thread" where
  "pthread_setcancelstate st t = (0, t\<lparr>t_cancelstate := st\<rparr>)"

text \<open>The \<^verbatim>\<open>DEBUG(DBG_ERROR, ...)\<close> macro of Logger.hpp records the message.\<close>
definition DEBUG :: "log_msg \<Rightarrow> os \<Rightarrow> os" where
  "DEBUG msg w = w\<lparr>logged := logged w @ [msg]\<rparr>"

section \<open>PosixAbstractThread\<close>

text \<open>The members \<^verbatim>\<open>isStarted_\<close> and \<^verbatim>\<open>handle_\<close> (a name cannot end with an underscore here).\<close>
record PosixAbstractThread =
  isStarted :: bool
  handle :: pthread_t

type_synonym state = "PosixAbstractThread \<times> os"

text \<open>
  The constructor initialises \<open>isStarted\<close> only. The member \<open>handle\<close> keeps
  whatever the object's memory held: that indeterminate value is the argument.
\<close>
definition constructor :: "pthread_t \<Rightarrow> PosixAbstractThread" where
  "constructor indeterminate = \<lparr>isStarted = False, handle = indeterminate\<rparr>"

text \<open>
  \<^verbatim>\<open>Execute\<close> runs on the new thread, on that thread's own record. The virtual
  method \<^verbatim>\<open>run()\<close> of the subclass is the argument \<open>run\<close>; it yields \<open>None\<close>
  when it does not return. The result is the returned pointer (always 0) and the
  thread's record.
\<close>
definition Execute :: "(thread \<Rightarrow> thread option) \<Rightarrow> thread \<Rightarrow> (nat \<times> thread) option" where
  "Execute run th =
     (let (_, th1) = pthread_setcancelstate PTHREAD_CANCEL_ENABLE th
      in case run th1 of
           None \<Rightarrow> None
         | Some th2 \<Rightarrow> Some (0, th2))"

definition start :: "state \<Rightarrow> bool \<times> state" where
  "start s =
     (case s of (this, w) \<Rightarrow>
        if isStarted this then (True, (this, w))
        else
          let (rc, h, w') = pthread_create (handle this) PosixAbstractThread_Execute w;
              this1 = this\<lparr>handle := h\<rparr>;
              this2 = (if rc = 0 then this1\<lparr>isStarted := True\<rparr> else this1)
          in (isStarted this2, (this2, w')))"

definition stop :: "state \<Rightarrow> bool \<times> state" where
  "stop s =
     (case s of (this, w) \<Rightarrow>
        if \<not> isStarted this then (False, (this, w))
        else
          let this1 = this\<lparr>isStarted := False\<rparr>;
              (rc, w') = pthread_cancel (handle this1) w
          in if rc = 0 then (True, (this1, w')) else (False, (this1, w')))"

text \<open>\<open>None\<close> when \<^verbatim>\<open>pthread_join\<close> does not return.\<close>
definition waitForTermination :: "state \<Rightarrow> (bool \<times> state) option" where
  "waitForTermination s =
     (case s of (this, w) \<Rightarrow>
        (case pthread_join (handle this) w of
           None \<Rightarrow> None
         | Some (rc, w') \<Rightarrow>
             if rc = 0 then Some (True, (this, w')) else Some (False, (this, w'))))"

definition blockSignal :: "int \<Rightarrow> state \<Rightarrow> bool \<times> state" where
  "blockSignal sig s =
     (case s of (this, w) \<Rightarrow>
        let m = sigemptyset;
            (_, m) = sigaddset m sig;
            (rc, w') = pthread_sigmask SIG_BLOCK m w
        in if rc \<noteq> 0 then (False, (this, DEBUG (Cant_mask_signal sig) w'))
           else (True, (this, w')))"

definition unblockSignal :: "int \<Rightarrow> state \<Rightarrow> bool \<times> state" where
  "unblockSignal sig s =
     (case s of (this, w) \<Rightarrow>
        let m = sigemptyset;
            (_, m) = sigaddset m sig;
            (rc, w') = pthread_sigmask SIG_UNBLOCK m w
        in if rc \<noteq> 0 then (False, (this, DEBUG (Cant_unmask_signal sig) w'))
           else (True, (this, w')))"


definition setSignalHandler :: "int \<Rightarrow> sighandler_t \<Rightarrow> state \<Rightarrow> bool \<times> state" where
  "setSignalHandler sig handler s =
     (case s of (this, w) \<Rightarrow>
        let ret = True;
            fullset = sigfillset;
            (_, oldset, w1) = sigprocmask SIG_SETMASK fullset w;
            sa = bzero;
            sa = sa\<lparr>sa_handler := handler\<rparr>;
            (rc, w2) = sigaction sig sa w1;
            (ret, w3) = (if rc < 0 then (False, DEBUG (Cant_set_signal sig) w2) else (ret, w2));
            (_, _, w4) = sigprocmask SIG_SETMASK oldset w3
        in (ret, (this, w4)))"

subsection \<open>The created thread, seen from the caller\<close>

text \<open>
  A call through the address of a start routine. Of the routines of other code nothing
  is known, which is the value \<open>None\<close>.
\<close>
fun call_routine :: "start_routine \<Rightarrow> (thread \<Rightarrow> thread option) \<Rightarrow> thread
    \<Rightarrow> (nat \<times> thread) option" where
  "call_routine PosixAbstractThread_Execute run th = Execute run th"
| "call_routine Other_routine run th = None"

text \<open>
  A created thread runs concurrently with the caller. The caller's methods are
  sequential, so the other thread is an environment step between two of them: the thread
  named by the handle runs the start routine it was created with to the end, where
  \<open>run\<close> is the \<^verbatim>\<open>run()\<close> of the object it was created for. A detached thread is
  released when it ends. \<open>None\<close> when there is no such thread or the routine does not
  return.
\<close>
definition thread_finishes :: "(thread \<Rightarrow> thread option) \<Rightarrow> pthread_t \<Rightarrow> os \<Rightarrow> os option" where
  "thread_finishes run h w =
     (case map_of (threads w) h of
        None \<Rightarrow> None
      | Some t \<Rightarrow>
          (case call_routine (start_routine t) run t of
             None \<Rightarrow> None
           | Some (_, t') \<Rightarrow>
               Some (w\<lparr>threads :=
                 (if detached t' then remove_thread h (threads w)
                  else update_thread h (\<lambda>_. t'\<lparr>exited := True\<rparr>) (threads w))\<rparr>)))"

text \<open>
  A state of the operating system right after process start, seen from the initial
  thread: no thread has been created, nothing is blocked. For the undefined cases it is
  a system where a failed creation leaves the handle alone, \<^verbatim>\<open>pthread_cancel\<close>
  answers 0, and \<^verbatim>\<open>pthread_kill\<close> and \<^verbatim>\<open>pthread_join\<close> crash.
\<close>
definition os0 :: "nat \<Rightarrow> os" where
  "os0 limit = \<lparr>threads = [], thread_limit = limit, caller = None, sigmask = {},
                dispositions = Map.empty, calls = [], logged = [],
                failed_create = (\<lambda>h. h), cancel_unknown = (\<lambda>h. 0),
                kill_unknown = (\<lambda>h. None), join_unknown = (\<lambda>h. None)\<rparr>"

text \<open>The number of threads that \<^verbatim>\<open>pthread_create\<close> has made so far.\<close>
definition thread_creations :: "os \<Rightarrow> nat" where
  "thread_creations w = length (filter (\<lambda>c. c = Pthread_create 0) (calls w))"

subsection \<open>Concrete runs\<close>

text \<open>
  A fresh object (its memory happened to hold 0) in a fresh system that allows four
  threads, and the states that follow from it: after \<open>start\<close>; after the thread's
  start routine has returned; after \<open>waitForTermination\<close> has then joined it; after
  \<open>stop\<close> on the running thread; and after \<open>blockSignal(SIGUSR1)\<close>.
\<close>
definition idle :: state where
  "idle = (constructor 0, os0 4)"

definition running :: state where
  "running = snd (start idle)"

definition finished :: state where
  "finished = (fst running, the (thread_finishes Some (handle (fst running)) (snd running)))"

definition joined :: state where
  "joined = snd (the (waitForTermination finished))"

definition stopped :: state where
  "stopped = snd (stop running)"

definition blocked :: state where
  "blocked = snd (blockSignal SIGUSR1 idle)"

section \<open>Evaluation of the concrete runs\<close>

lemmas posix_defs =
  ESRCH_def EAGAIN_def EINVAL_def EDEADLK_def SIGKILL_def SIGUSR1_def SIGSTOP_def NSIG_def
  SIG_BLOCK_def SIG_UNBLOCK_def SIG_SETMASK_def reserved_def valid_signal_def unblockable_def
  sigemptyset_def sigfillset_def sigaddset_def change_mask_def pthread_sigmask_def
  sigprocmask_def bzero_def sigaction_def new_thread_def new_handle_def remove_thread_def
  pthread_create_def pthread_cancel_def pthread_join_def pthread_kill_def
  pthread_setcancelstate_def DEBUG_def os0_def

lemma idle_eq: "idle = (\<lparr>isStarted = False, handle = 0\<rparr>, os0 4)"
  by (simp add: idle_def constructor_def)

lemma running_eq:
  "running = (\<lparr>isStarted = True, handle = 1\<rparr>,
              (os0 4)\<lparr>threads := [(1, new_thread PosixAbstractThread_Execute)], calls := [Pthread_create 0]\<rparr>)"
  by (simp add: running_def idle_eq start_def pthread_create_def new_handle_def os0_def)

lemma finished_eq:
  "finished = (\<lparr>isStarted = True, handle = 1\<rparr>,
               (os0 4)\<lparr>threads := [(1, (new_thread PosixAbstractThread_Execute)\<lparr>exited := True\<rparr>)],
                       calls := [Pthread_create 0]\<rparr>)"
  by (simp add: finished_def running_eq thread_finishes_def Execute_def
      pthread_setcancelstate_def new_thread_def os0_def)

lemma joined_eq:
  "joined = (\<lparr>isStarted = True, handle = 1\<rparr>,
             (os0 4)\<lparr>calls := [Pthread_create 0, Pthread_join 1 0]\<rparr>)"
  by (simp add: joined_def finished_eq waitForTermination_def pthread_join_def
      remove_thread_def new_thread_def os0_def)

lemma stopped_eq:
  "stopped = (\<lparr>isStarted = False, handle = 1\<rparr>,
              (os0 4)\<lparr>threads := [(1, (new_thread PosixAbstractThread_Execute)\<lparr>cancel_pending := True\<rparr>)],
                      calls := [Pthread_create 0, Pthread_cancel 1 0]\<rparr>)"
  by (simp add: stopped_def running_eq stop_def pthread_cancel_def new_thread_def os0_def)

lemma blocked_eq:
  "blocked = (\<lparr>isStarted = False, handle = 0\<rparr>,
              (os0 4)\<lparr>sigmask := {SIGUSR1}, calls := [Pthread_sigmask SIG_BLOCK {SIGUSR1} 0]\<rparr>)"
  by (simp add: blocked_def idle_eq blockSignal_def posix_defs)

section \<open>Facts about the environment\<close>

text \<open>No mask change ever blocks SIGKILL or SIGSTOP, so no reachable mask holds them.\<close>
lemma change_mask_unblockable:
  assumes "change_mask how req old = Some m" and "old \<inter> unblockable = {}"
  shows "m \<inter> unblockable = {}"
  using assms by (auto simp: change_mask_def split: if_splits)

lemma map_of_remove_thread: "map_of (remove_thread h ts) h = None"
  by (induction ts) (auto simp: remove_thread_def)

lemma sigprocmask_setmask:
  "sigprocmask SIG_SETMASK req w =
     (0, sigmask w,
      w\<lparr>sigmask := req - unblockable, calls := calls w @ [Sigprocmask SIG_SETMASK req 0]\<rparr>)"
  by (simp add: sigprocmask_def change_mask_def SIG_SETMASK_def SIG_BLOCK_def SIG_UNBLOCK_def)

lemma sigaction_effect:
  "sigaction sig sa w = (rc, w') \<Longrightarrow>
     rc = (if valid_signal sig \<and> sig \<notin> unblockable then 0 else - 1) \<and>
     sigmask w' = sigmask w \<and> calls w' = calls w @ [Sigaction sig sa rc]"
  by (auto simp: sigaction_def split: if_splits)

lemma pthread_sigmask_block:
  "pthread_sigmask SIG_BLOCK req w =
     (0, w\<lparr>sigmask := sigmask w \<union> (req - unblockable),
            calls := calls w @ [Pthread_sigmask SIG_BLOCK req 0]\<rparr>)"
  by (simp add: pthread_sigmask_def change_mask_def)

lemma pthread_sigmask_unblock:
  "pthread_sigmask SIG_UNBLOCK req w =
     (0, w\<lparr>sigmask := sigmask w - req,
            calls := calls w @ [Pthread_sigmask SIG_UNBLOCK req 0]\<rparr>)"
  by (simp add: pthread_sigmask_def change_mask_def SIG_BLOCK_def SIG_UNBLOCK_def)

lemma no_unblockable_diff: "SIGKILL \<notin> m \<Longrightarrow> SIGSTOP \<notin> m \<Longrightarrow> m - unblockable = m"
  by (auto simp: unblockable_def)

text \<open>The two methods that change the mask keep SIGKILL and SIGSTOP out of it.\<close>
lemma blockSignal_unblockable:
  "sigmask w \<inter> unblockable = {} \<Longrightarrow>
     sigmask (snd (snd (blockSignal sig (this, w)))) \<inter> unblockable = {} \<and>
     sigmask (snd (snd (unblockSignal sig (this, w)))) \<inter> unblockable = {}"
  by (auto simp: blockSignal_def unblockSignal_def pthread_sigmask_block pthread_sigmask_unblock
      Let_def split: prod.splits)

text \<open>The identifier chosen for a new thread is not in use.\<close>
lemma new_handle_greater: "h \<in> set hs \<Longrightarrow> h < new_handle hs"
  by (induction hs) (auto simp: new_handle_def)

lemma new_handle_fresh: "new_handle (map fst ts) \<notin> fst ` set ts"
  using new_handle_greater [of "new_handle (map fst ts)" "map fst ts"] by auto

section \<open>The lifecycle: start and stop\<close>

text \<open>
  Claim C1. On an instance whose started flag is true, \<open>start()\<close> returns true at once:
  the object and the operating-system state, with its list of calls, are the ones before
  the call, so creation of a thread is not attempted. Hence whenever a call of \<open>start()\<close>
  has returned true, the next call returns true and changes nothing; and when the first of
  two successive calls started a not-started instance, the two calls together have created
  exactly one thread.
\<close>
theorem start_idempotent:
  "(isStarted this \<longrightarrow> start (this, w) = (True, (this, w))) \<and>
   (fst (start (this, w)) \<longrightarrow>
      start (snd (start (this, w))) = (True, snd (start (this, w)))) \<and>
   (\<not> isStarted this \<and> fst (start (this, w)) \<longrightarrow>
      thread_creations (snd (snd (start (snd (start (this, w)))))) = Suc (thread_creations w) \<and>
      length (threads (snd (snd (start (snd (start (this, w))))))) = Suc (length (threads w)))"
  by (auto simp: start_def pthread_create_def thread_creations_def Let_def EAGAIN_def
      split: if_splits)

theorem start_idempotent_witness:
  "isStarted (fst running) \<and> start running = (True, running) \<and>
   \<not> isStarted (fst idle) \<and> fst (start idle) \<and>
   start (snd (start idle)) = (True, snd (start idle)) \<and>
   thread_creations (snd (snd (start (snd (start idle))))) = Suc (thread_creations (snd idle)) \<and>
   length (threads (snd (snd (start (snd (start idle)))))) = Suc (length (threads (snd idle)))"
  using start_idempotent [of "fst running" "snd running"]
    start_idempotent [of "fst idle" "snd idle"]
  by (simp add: running_eq idle_eq start_def thread_creations_def posix_defs Let_def)

text \<open>
  Claim C2. On an instance whose started flag is true, \<open>stop()\<close> leaves the flag false
  whatever \<^verbatim>\<open>pthread_cancel\<close> answers, keeps the handle, and returns true exactly
  when \<^verbatim>\<open>pthread_cancel\<close> on the handle returned 0.
\<close>
theorem stop_started:
  "isStarted this \<Longrightarrow>
     stop (this, w) = (fst (pthread_cancel (handle this) w) = 0,
                       (this\<lparr>isStarted := False\<rparr>, snd (pthread_cancel (handle this) w))) \<and>
     \<not> isStarted (fst (snd (stop (this, w))))"
  by (simp add: stop_def Let_def split: prod.splits)

text \<open>
  The request is accepted for the running thread. The handle of the thread that has been
  joined names no thread any more and the answer is the system's: the flag is false after
  the call in a system that answers ESRCH, where \<open>stop()\<close> returns false, and in one
  that answers 0, where it returns true.
\<close>
theorem stop_started_witness:
  "isStarted (fst running) \<and> fst (stop running) \<and> \<not> isStarted (fst (snd (stop running))) \<and>
   isStarted (fst joined) \<and>
   \<not> fst (stop (fst joined, (snd joined)\<lparr>cancel_unknown := \<lambda>h. ESRCH\<rparr>)) \<and>
   \<not> isStarted (fst (snd (stop (fst joined, (snd joined)\<lparr>cancel_unknown := \<lambda>h. ESRCH\<rparr>)))) \<and>
   fst (stop (fst joined, (snd joined)\<lparr>cancel_unknown := \<lambda>h. 0\<rparr>)) \<and>
   \<not> isStarted (fst (snd (stop (fst joined, (snd joined)\<lparr>cancel_unknown := \<lambda>h. 0\<rparr>))))"
  using stop_started [of "fst running" "snd running"]
    stop_started [of "fst joined" "(snd joined)\<lparr>cancel_unknown := \<lambda>h. ESRCH\<rparr>"]
    stop_started [of "fst joined" "(snd joined)\<lparr>cancel_unknown := \<lambda>h. 0\<rparr>"]
  by (simp add: running_eq joined_eq stop_def posix_defs Let_def)

text \<open>
  Claim C4. On an instance whose started flag is false, \<open>stop()\<close> returns false and
  changes nothing: the flag, the handle and the operating-system state, with its list of
  calls, are the ones before the call, so no cancellation request is issued.
\<close>
theorem stop_not_started:
  "\<not> isStarted this \<Longrightarrow> stop (this, w) = (False, (this, w))"
  by (simp add: stop_def)

theorem stop_not_started_witness:
  "\<not> isStarted (fst idle) \<and> stop idle = (False, idle) \<and>
   \<not> isStarted (fst stopped) \<and> stop stopped = (False, stopped)"
  using stop_not_started [of "fst idle" "snd idle"]
    stop_not_started [of "fst stopped" "snd stopped"]
  by (simp add: idle_eq stopped_eq)

text \<open>
  Claim C9. On an instance whose started flag is false, \<open>start()\<close> returns false if and
  only if \<^verbatim>\<open>pthread_create\<close> fails. After such a failure the flag is still false,
  and a further \<open>start()\<close>, in whatever state the system then is, calls
  \<^verbatim>\<open>pthread_create\<close> again.
\<close>
theorem start_fails_iff:
  "\<not> isStarted this \<Longrightarrow>
     (fst (start (this, w)) = False) =
       (fst (pthread_create (handle this) PosixAbstractThread_Execute w) \<noteq> 0) \<and>
     (fst (pthread_create (handle this) PosixAbstractThread_Execute w) \<noteq> 0 \<longrightarrow>
        \<not> isStarted (fst (snd (start (this, w)))) \<and>
        (\<forall>w2. \<exists>rc. calls (snd (snd (start (fst (snd (start (this, w))), w2)))) =
                 calls w2 @ [Pthread_create rc]))"
  by (auto simp: start_def pthread_create_def Let_def EAGAIN_def split: if_splits)

text \<open>
  With a limit of no thread at all creation fails, and it is attempted anew by the next
  call; with a limit of four it succeeds.
\<close>
theorem start_fails_iff_witness:
  "\<not> isStarted (constructor 0) \<and>
   fst (pthread_create (handle (constructor 0)) PosixAbstractThread_Execute (os0 0)) = EAGAIN \<and>
   fst (start (constructor 0, os0 0)) = False \<and>
   \<not> isStarted (fst (snd (start (constructor 0, os0 0)))) \<and>
   calls (snd (snd (start (snd (start (constructor 0, os0 0)))))) =
     [Pthread_create EAGAIN, Pthread_create EAGAIN] \<and>
   fst (pthread_create (handle (constructor 0)) PosixAbstractThread_Execute (os0 4)) = 0 \<and>
   fst (start (constructor 0, os0 4)) = True"
  using start_fails_iff [of "constructor 0" "os0 0"] start_fails_iff [of "constructor 0" "os0 4"]
  by (simp add: constructor_def start_def posix_defs Let_def)

section \<open>Joining and signalling the owned thread\<close>







section \<open>The thread's entry point\<close>

text \<open>
  Claim C8. The start routine of every thread that \<open>start()\<close> creates is \<open>Execute\<close>,
  and \<open>Execute\<close> first enables cancellation for its thread and only then invokes
  \<open>run()\<close>: \<open>run()\<close> is entered with the thread's cancelability state enabled,
  and \<open>Execute\<close> returns 0 when \<open>run()\<close> returns. Cancellation is the asynchronous
  request that \<open>stop()\<close> issues and that the thread honours at a cancellation point:
  the cancelability type is left as it is, which is deferred on a new thread.
\<close>
theorem Execute_enables_then_runs:
  "Execute run th = map_option (Pair 0) (run (th\<lparr>t_cancelstate := PTHREAD_CANCEL_ENABLE\<rparr>)) \<and>
   t_canceltype (th\<lparr>t_cancelstate := PTHREAD_CANCEL_ENABLE\<rparr>) = t_canceltype th \<and>
   call_routine PosixAbstractThread_Execute run th = Execute run th \<and>
   (\<not> isStarted this \<and> fst (start (this, w)) \<longrightarrow>
      map_of (threads (snd (snd (start (this, w))))) (handle (fst (snd (start (this, w))))) =
        Some (new_thread PosixAbstractThread_Execute) \<and>
      start_routine (new_thread PosixAbstractThread_Execute) = PosixAbstractThread_Execute)"
  by (auto simp: Execute_def pthread_setcancelstate_def start_def pthread_create_def
      new_thread_def EAGAIN_def Let_def split: option.splits if_splits)

text \<open>
  The thread made by starting the fresh object has \<open>Execute\<close> as its start routine,
  and when it runs a body that returns at once it ends with cancellation enabled. A body
  that returns only where cancellation is disabled is never left by \<open>Execute\<close>, also
  on a thread that had cancellation disabled.
\<close>
theorem Execute_enables_then_runs_witness:
  "\<not> isStarted (fst idle) \<and> fst (start idle) \<and>
   map_of (threads (snd (snd (start idle)))) (handle (fst (snd (start idle)))) =
     Some (new_thread PosixAbstractThread_Execute) \<and>
   thread_finishes Some (handle (fst running)) (snd running) = Some (snd finished) \<and>
   Execute Some ((new_thread PosixAbstractThread_Execute)\<lparr>t_cancelstate := PTHREAD_CANCEL_DISABLE\<rparr>) =
     Some (0, new_thread PosixAbstractThread_Execute) \<and>
   Execute (\<lambda>th. if t_cancelstate th = PTHREAD_CANCEL_ENABLE then None else Some th)
     ((new_thread PosixAbstractThread_Execute)\<lparr>t_cancelstate := PTHREAD_CANCEL_DISABLE\<rparr>) = None"
  using Execute_enables_then_runs
      [of Some "(new_thread PosixAbstractThread_Execute)\<lparr>t_cancelstate := PTHREAD_CANCEL_DISABLE\<rparr>"
          "fst idle" "snd idle"]
    Execute_enables_then_runs
      [of "\<lambda>th. if t_cancelstate th = PTHREAD_CANCEL_ENABLE then None else Some th"
          "(new_thread PosixAbstractThread_Execute)\<lparr>t_cancelstate := PTHREAD_CANCEL_DISABLE\<rparr>"
          "fst idle" "snd idle"]
  by (simp add: idle_eq running_eq finished_eq start_def thread_finishes_def Execute_def
      posix_defs Let_def)

section \<open>Signal masks and handlers\<close>

text \<open>
  Claim C6. \<open>setSignalHandler(sig, handler)\<close> makes three calls, in this order: it sets
  the mask to the full set (every signal that can be blocked is then blocked), installs
  \<open>handler\<close> for \<open>sig\<close> with a structure whose other fields are zero, and sets the
  mask to the set saved by the first call. Whether or not the installation succeeds, the
  mask after the call is the mask before it. The mask is the one \<^verbatim>\<open>sigprocmask\<close>
  reads and writes; it never holds SIGKILL or SIGSTOP.
\<close>
theorem setSignalHandler_steps:
  assumes kill: "SIGKILL \<notin> sigmask w" and stop: "SIGSTOP \<notin> sigmask w"
  shows "sigmask (snd (snd (setSignalHandler sig handler (this, w)))) = sigmask w \<and>
     calls (snd (snd (setSignalHandler sig handler (this, w)))) =
       calls w @
         [Sigprocmask SIG_SETMASK sigfillset 0,
          Sigaction sig \<lparr>sa_handler = handler, sa_mask = {}, sa_flags = 0\<rparr>
            (if fst (setSignalHandler sig handler (this, w)) then 0 else - 1),
          Sigprocmask SIG_SETMASK (sigmask w) 0] \<and>
     sigmask (snd (snd (sigprocmask SIG_SETMASK sigfillset w))) = sigfillset - unblockable \<and>
     fst (setSignalHandler sig handler (this, w)) = (valid_signal sig \<and> sig \<notin> unblockable) \<and>
     fst (snd (setSignalHandler sig handler (this, w))) = this"
proof -
  define sa where "sa = bzero\<lparr>sa_handler := handler\<rparr>"
  define w1 where "w1 = w\<lparr>sigmask := sigfillset - unblockable,
    calls := calls w @ [Sigprocmask SIG_SETMASK sigfillset 0]\<rparr>"
  obtain rc w2 where inst: "sigaction sig sa w1 = (rc, w2)"
    by (cases "sigaction sig sa w1")
  define w3 where "w3 = (if rc < 0 then DEBUG (Cant_set_signal sig) w2 else w2)"
  define w4 where "w4 = w3\<lparr>sigmask := sigmask w - unblockable,
    calls := calls w3 @ [Sigprocmask SIG_SETMASK (sigmask w) 0]\<rparr>"
  have sa: "sa = \<lparr>sa_handler = handler, sa_mask = {}, sa_flags = 0\<rparr>"
    by (simp add: sa_def bzero_def)
  have first: "sigprocmask SIG_SETMASK sigfillset w = (0, sigmask w, w1)"
    by (simp add: w1_def sigprocmask_setmask)
  from sigaction_effect [OF inst]
  have rc: "rc = (if valid_signal sig \<and> sig \<notin> unblockable then 0 else - 1)"
    and calls2: "calls w2 = calls w1 @ [Sigaction sig sa rc]"
    by simp_all
  have calls3: "calls w3 = calls w2"
    by (simp add: w3_def DEBUG_def)
  have restored: "sigmask w4 = sigmask w"
    by (simp add: w4_def no_unblockable_diff [OF kill stop])
  have result: "setSignalHandler sig handler (this, w) = (\<not> rc < 0, (this, w4))"
    by (simp add: setSignalHandler_def Let_def sigprocmask_setmask inst [unfolded sa_def w1_def]
        w3_def w4_def)
  have ret: "(\<not> rc < 0) = (valid_signal sig \<and> sig \<notin> unblockable)"
    by (simp add: rc)
  have trace: "calls w4 = calls w @ [Sigprocmask SIG_SETMASK sigfillset 0,
      Sigaction sig sa rc, Sigprocmask SIG_SETMASK (sigmask w) 0]"
    by (simp add: w4_def calls3 calls2 w1_def)
  show ?thesis
    using restored trace ret
    by (simp add: result first sa rc w1_def)
qed

text \<open>
  A handler for SIGUSR1 is installed and one for SIGKILL is refused, with SIGUSR1 blocked
  before and after both calls.
\<close>
theorem setSignalHandler_steps_witness:
  "SIGKILL \<notin> sigmask (snd blocked) \<and> SIGSTOP \<notin> sigmask (snd blocked) \<and>
   fst (setSignalHandler SIGUSR1 42 blocked) \<and>
   sigmask (snd (snd (setSignalHandler SIGUSR1 42 blocked))) = {SIGUSR1} \<and>
   dispositions (snd (snd (setSignalHandler SIGUSR1 42 blocked))) SIGUSR1 =
     Some \<lparr>sa_handler = 42, sa_mask = {}, sa_flags = 0\<rparr> \<and>
   \<not> fst (setSignalHandler SIGKILL 42 blocked) \<and>
   sigmask (snd (snd (setSignalHandler SIGKILL 42 blocked))) = {SIGUSR1} \<and>
   logged (snd (snd (setSignalHandler SIGKILL 42 blocked))) = [Cant_set_signal SIGKILL]"
  using setSignalHandler_steps [of "snd blocked" SIGUSR1 42 "fst blocked"]
    setSignalHandler_steps [of "snd blocked" SIGKILL 42 "fst blocked"]
  by (simp add: blocked_eq setSignalHandler_def posix_defs Let_def)

text \<open>
  Claim C7, as stated, fails for a signal that was blocked already: after
  \<open>blockSignal(SIGUSR1)\<close> and \<open>unblockSignal(SIGUSR1)\<close> in a thread that had SIGUSR1
  blocked, SIGUSR1 is not blocked any more.
\<close>
theorem block_unblock_counterexample:
  "sigmask (snd blocked) = {SIGUSR1} \<and>
   sigmask (snd (snd (unblockSignal SIGUSR1 (snd (blockSignal SIGUSR1 blocked))))) = {} \<and>
   sigmask (snd (snd (unblockSignal SIGUSR1 (snd (blockSignal SIGUSR1 blocked))))) \<noteq>
     sigmask (snd blocked)"
  by (simp add: blocked_eq blockSignal_def unblockSignal_def posix_defs Let_def)

text \<open>
  Claim C7, amended. For every signal number that is not blocked in the calling thread's
  initial mask, \<open>blockSignal\<close> immediately followed by \<open>unblockSignal\<close> leaves the
  mask as it was. In general both calls return true and the mask that results is the
  initial one without the signal.
\<close>
theorem block_unblock:
  "fst (blockSignal sig (this, w)) \<and>
   fst (unblockSignal sig (snd (blockSignal sig (this, w)))) \<and>
   sigmask (snd (snd (unblockSignal sig (snd (blockSignal sig (this, w)))))) =
     (if valid_signal sig then sigmask w - {sig} else sigmask w) \<and>
   (sig \<notin> sigmask w \<longrightarrow>
     sigmask (snd (snd (unblockSignal sig (snd (blockSignal sig (this, w)))))) = sigmask w)"
  by (auto simp: blockSignal_def unblockSignal_def sigaddset_def sigemptyset_def
      pthread_sigmask_def change_mask_def SIG_BLOCK_def SIG_UNBLOCK_def Let_def)

theorem block_unblock_witness:
  "SIGUSR1 \<notin> sigmask (snd idle) \<and>
   sigmask (snd (snd (blockSignal SIGUSR1 idle))) = {SIGUSR1} \<and>
   sigmask (snd (snd (unblockSignal SIGUSR1 (snd (blockSignal SIGUSR1 idle))))) =
     sigmask (snd idle)"
  using block_unblock [of SIGUSR1 "fst idle" "snd idle"]
  by (simp add: idle_eq blockSignal_def unblockSignal_def posix_defs Let_def)

text \<open>
  Claim C10. For a number that is no signal, \<^verbatim>\<open>sigaddset\<close> fails and its result is
  ignored: \<open>blockSignal\<close> and \<open>unblockSignal\<close> pass the empty set on, return true,
  log nothing and leave the calling thread's mask as it was.
\<close>
theorem invalid_signal_ignored:
  "\<not> valid_signal sig \<Longrightarrow>
     sigaddset sigemptyset sig = (- 1, {}) \<and>
     blockSignal sig (this, w) =
       (True, (this, w\<lparr>calls := calls w @ [Pthread_sigmask SIG_BLOCK {} 0]\<rparr>)) \<and>
     unblockSignal sig (this, w) =
       (True, (this, w\<lparr>calls := calls w @ [Pthread_sigmask SIG_UNBLOCK {} 0]\<rparr>)) \<and>
     sigmask (snd (snd (blockSignal sig (this, w)))) = sigmask w \<and>
     sigmask (snd (snd (unblockSignal sig (this, w)))) = sigmask w"
  by (auto simp: blockSignal_def unblockSignal_def sigaddset_def sigemptyset_def
      pthread_sigmask_def change_mask_def SIG_BLOCK_def SIG_UNBLOCK_def Let_def)

theorem invalid_signal_ignored_witness:
  "\<not> valid_signal 0 \<and> \<not> valid_signal 65 \<and>
   fst (blockSignal 0 blocked) \<and> sigmask (snd (snd (blockSignal 0 blocked))) = {SIGUSR1} \<and>
   fst (unblockSignal 65 blocked) \<and> sigmask (snd (snd (unblockSignal 65 blocked))) = {SIGUSR1}"
  using invalid_signal_ignored [of 0 "fst blocked" "snd blocked"]
    invalid_signal_ignored [of 65 "fst blocked" "snd blocked"]
  by (simp add: blocked_eq valid_signal_def NSIG_def)

end
